theory Spec2Isabelle
  imports Complex_Main
begin

section \<open>The credit-index trading environment \<open>CreditRSIEnv\<close>\<close>

text \<open>
  A shallow embedding of \<open>calculate_rsi\<close> and of the class \<open>CreditRSIEnv\<close>
  (\<open>__init__\<close>, \<open>_get_obs\<close>, \<open>step\<close>, \<open>reset\<close>).

  Numbers. Python's \<open>float\<close> is modelled by \<open>real\<close>. In \<open>calculate_rsi\<close>, \<open>__init__\<close>,
  \<open>step\<close> and \<open>reset\<close> finite values are exact and no operation rounds, but for the cast
  to \<open>float32\<close> of the bounds of the observation space, on which an exception of
  \<open>__init__\<close> depends. \<open>step_rounded\<close> is \<open>step\<close> with the rounding of each
  floating-point operation as a parameter. Where the source itself produces or tests the
  special values of floating point (the quotient \<open>avg_gain / avg_loss\<close> and what follows
  it in \<open>calculate_rsi\<close>, the cast of the bounds), they are explicit: a value that may be
  \<open>NaN\<close> but not infinite is a \<open>real option\<close> (\<open>None\<close> is \<open>NaN\<close>), and a value that may
  also be infinite is an \<open>fl\<close>. Zero has no sign in this model. The position
  \<open>shares_held\<close> is a Python \<open>int\<close>, here \<open>int\<close>.

  Exceptions are values: an operation returns \<open>Inl\<close> of the exception it raises. A method
  that mutates \<open>self\<close> returns the object as it is when the method returns or raises.
\<close>

datatype error = ValueError | IndexError

subsection \<open>Floating-point special values\<close>

datatype fl = Fin real | PInf | NInf | NaN

fun fl_add :: "fl \<Rightarrow> fl \<Rightarrow> fl" where
  "fl_add NaN _ = NaN"
| "fl_add _ NaN = NaN"
| "fl_add (Fin a) (Fin b) = Fin (a + b)"
| "fl_add PInf NInf = NaN"
| "fl_add NInf PInf = NaN"
| "fl_add PInf _ = PInf"
| "fl_add NInf _ = NInf"
| "fl_add (Fin a) PInf = PInf"
| "fl_add (Fin a) NInf = NInf"

fun fl_neg :: "fl \<Rightarrow> fl" where
  "fl_neg (Fin a) = Fin (- a)"
| "fl_neg PInf = NInf"
| "fl_neg NInf = PInf"
| "fl_neg NaN = NaN"

definition fl_sub :: "fl \<Rightarrow> fl \<Rightarrow> fl" where
  "fl_sub x y = fl_add x (fl_neg y)"

text \<open>
  Division as numpy does it under \<open>np.errstate(divide='ignore', invalid='ignore')\<close>:
  no exception, \<open>x / 0\<close> is an infinity of the sign of \<open>x\<close>, \<open>0 / 0\<close> and
  \<open>inf / inf\<close> are \<open>NaN\<close>, a finite value over an infinity is zero.
\<close>

fun fl_div :: "fl \<Rightarrow> fl \<Rightarrow> fl" where
  "fl_div NaN _ = NaN"
| "fl_div _ NaN = NaN"
| "fl_div (Fin a) (Fin b) =
     (if b = 0 then (if a = 0 then NaN else if 0 < a then PInf else NInf)
      else Fin (a / b))"
| "fl_div (Fin a) PInf = Fin 0"
| "fl_div (Fin a) NInf = Fin 0"
| "fl_div PInf (Fin b) = (if 0 \<le> b then PInf else NInf)"
| "fl_div NInf (Fin b) = (if 0 \<le> b then NInf else PInf)"
| "fl_div PInf _ = NaN"
| "fl_div NInf _ = NaN"

definition of_series :: "real option \<Rightarrow> fl" where
  "of_series x = (case x of None \<Rightarrow> NaN | Some r \<Rightarrow> Fin r)"

text \<open>The order \<open><\<close> of floating-point values: false when an argument is \<open>NaN\<close>.\<close>

fun fl_less :: "fl \<Rightarrow> fl \<Rightarrow> bool" where
  "fl_less NaN _ = False"
| "fl_less _ NaN = False"
| "fl_less (Fin a) (Fin b) = (a < b)"
| "fl_less PInf _ = False"
| "fl_less _ NInf = False"
| "fl_less NInf _ = True"
| "fl_less (Fin a) PInf = True"

subsection \<open>Rounding to a binary floating-point format\<close>

text \<open>
  Rounding to the nearest, ties to the even neighbour, as IEEE 754 does by default.
  \<open>scale n hi emin y e\<close> brings \<open>y > 0\<close> into \<open>[hi / 2, hi)\<close>, where \<open>hi = 2 ^ p\<close> for a
  significand of \<open>p\<close> bits, by halving or doubling it, and counts the exponent \<open>e\<close>, so
  that \<open>y * 2 ^ e\<close> stays what it was; it does not go below the exponent \<open>emin\<close> of the
  spacing of the subnormal numbers. It takes at most \<open>n\<close> steps; 2200 steps reach every
  double. \<open>round_to\<close> rounds as if the exponent had no upper bound.
\<close>

definition round_half_even :: "real \<Rightarrow> int" where
  "round_half_even y =
     (let f = \<lfloor>y\<rfloor>; d = y - of_int f
      in if d < 1 / 2 then f else if 1 / 2 < d then f + 1 else if even f then f else f + 1)"

fun scale :: "nat \<Rightarrow> real \<Rightarrow> int \<Rightarrow> real \<Rightarrow> int \<Rightarrow> real \<times> int" where
  "scale 0 hi emin y e = (y, e)"
| "scale (Suc n) hi emin y e =
     (if hi \<le> y then scale n hi emin (y / 2) (e + 1)
      else if y < hi / 2 \<and> emin < e then scale n hi emin (y * 2) (e - 1)
      else (y, e))"

definition round_to :: "real \<Rightarrow> int \<Rightarrow> real \<Rightarrow> real" where
  "round_to hi emin x =
     (if x = 0 then 0
      else let (y, e) = scale 2200 hi emin \<bar>x\<bar> 0
           in sgn x * of_int (round_half_even y) * 2 powi e)"

text \<open>A \<open>float64\<close> has 53 bits and subnormal spacing \<open>2 ^ -1074\<close> (its overflow to
  infinity is not modelled); a \<open>float32\<close> has 24 bits, subnormal spacing \<open>2 ^ -149\<close> and
  the largest value \<open>(2 - 2 ^ -23) * 2 ^ 127\<close>, beyond which a rounded value is an
  infinity.\<close>

definition round_double :: "real \<Rightarrow> real" where
  "round_double x = round_to (2 ^ 53) (- 1074) x"

definition float32_max :: real where
  "float32_max = (2 - 1 / 2 ^ 23) * 2 ^ 127"

definition astype_float32 :: "real \<Rightarrow> fl" where
  "astype_float32 x =
     (let y = round_to (2 ^ 24) (- 149) x
      in if float32_max < y then PInf else if y < - float32_max then NInf else Fin y)"

subsection \<open>\<open>calculate_rsi\<close>\<close>

text \<open>\<open>Series.diff()\<close>: the first entry is \<open>NaN\<close>, every other one the difference to its
  predecessor.\<close>

fun diff_from :: "real \<Rightarrow> real list \<Rightarrow> real option list" where
  "diff_from p [] = []"
| "diff_from p (x # xs) = Some (x - p) # diff_from x xs"

fun diff :: "real list \<Rightarrow> real option list" where
  "diff [] = []"
| "diff (x # xs) = None # diff_from x xs"

text \<open>\<open>s.mask(cond, 0)\<close> puts 0 where \<open>cond\<close> holds; a comparison with \<open>NaN\<close> is false, so
  \<open>NaN\<close> stays.\<close>

definition mask :: "(real \<Rightarrow> bool) \<Rightarrow> real option list \<Rightarrow> real option list" where
  "mask cond s = map (\<lambda>x. case x of None \<Rightarrow> None | Some d \<Rightarrow> if cond d then Some 0 else Some d) s"

definition neg_series :: "real option list \<Rightarrow> real option list" where
  "neg_series s = map (map_option uminus) s"

text \<open>
  \<open>s.ewm(com=c, min_periods=m).mean()\<close> of pandas, with its defaults \<open>adjust=True\<close> and
  \<open>ignore_na=False\<close>: the loop of pandas' aggregation, which carries the weighted mean
  \<open>weighted\<close> so far, the weight \<open>old_wt\<close> of the past and the number \<open>nobs\<close> of values seen
  that are not \<open>NaN\<close>. \<open>f\<close> is \<open>1 - alpha\<close> with \<open>alpha = 1 / (1 + com)\<close>; an entry is
  \<open>NaN\<close> until \<open>minp\<close> values have been seen. pandas refuses \<open>com < 0\<close> with a
  \<open>ValueError\<close> when the window object is built.
\<close>

fun ewm_loop :: "real \<Rightarrow> nat \<Rightarrow> real option \<Rightarrow> real \<Rightarrow> nat \<Rightarrow> real option list \<Rightarrow> real option list" where
  "ewm_loop f minp weighted old_wt nobs [] = []"
| "ewm_loop f minp weighted old_wt nobs (cur # xs) =
     (let nobs' = (if cur = None then nobs else nobs + 1) in
      case weighted of
        Some w \<Rightarrow>
          (let old_wt1 = old_wt * f in
           case cur of
             Some c \<Rightarrow>
               (let w' = (if w \<noteq> c then (old_wt1 * w + 1 * c) / (old_wt1 + 1) else w)
                in (if minp \<le> nobs' then Some w' else None)
                   # ewm_loop f minp (Some w') (old_wt1 + 1) nobs' xs)
           | None \<Rightarrow>
               (if minp \<le> nobs' then Some w else None)
               # ewm_loop f minp (Some w) old_wt1 nobs' xs)
      | None \<Rightarrow>
          (if minp \<le> nobs' then cur else None)
          # ewm_loop f minp cur old_wt nobs' xs)"

definition ewm_mean :: "int \<Rightarrow> nat \<Rightarrow> real option list \<Rightarrow> error + real option list" where
  "ewm_mean com min_periods s =
     (if com < 0 then Inl ValueError
      else let alpha = 1 / (1 + real_of_int com)
           in Inr (ewm_loop (1 - alpha) (max min_periods 1) None 1 0 s))"

text \<open>The last line of \<open>calculate_rsi\<close>: \<open>replace([inf, -inf], nan).fillna(50)\<close>.\<close>

fun replace_fillna :: "fl \<Rightarrow> real" where
  "replace_fillna (Fin r) = r"
| "replace_fillna PInf = 50"
| "replace_fillna NInf = 50"
| "replace_fillna NaN = 50"

definition rsi_of :: "real option \<Rightarrow> real option \<Rightarrow> real" where
  "rsi_of avg_gain avg_loss =
     (let rs = fl_div (of_series avg_gain) (of_series avg_loss);
          rsi = fl_sub (Fin 100) (fl_div (Fin 100) (fl_add (Fin 1) rs))
      in replace_fillna rsi)"

definition calculate_rsi :: "real list \<Rightarrow> nat \<Rightarrow> error + real list" where
  "calculate_rsi prices window =
     (let d = diff prices;
          gain = mask (\<lambda>x. x < 0) d;
          loss = neg_series (mask (\<lambda>x. 0 < x) d)
      in case ewm_mean (int window - 1) window gain of
           Inl err \<Rightarrow> Inl err
         | Inr avg_gain \<Rightarrow>
             (case ewm_mean (int window - 1) window loss of
                Inl err \<Rightarrow> Inl err
              | Inr avg_loss \<Rightarrow> Inr (map2 rsi_of avg_gain avg_loss)))"

subsection \<open>The environment's data\<close>

text \<open>A row of \<open>self.df\<close> after \<open>__init__\<close>: the columns \<open>price\<close>, \<open>rsi\<close> and
  \<open>spread_change\<close>.\<close>

record row =
  price :: real
  rsi :: real
  spread_change :: real

text \<open>The observation vector \<open>[current_spread, rsi, shares_held, balance, spread_change]\<close>
  (the cast to \<open>float32\<close> is not modelled).\<close>

record obs =
  obs_spread :: real
  obs_rsi :: real
  obs_shares_held :: real
  obs_balance :: real
  obs_spread_change :: real

text \<open>One entry of \<open>self.episode_history\<close>.\<close>

record history_entry =
  h_step :: nat
  h_price :: real
  h_rsi :: real
  h_action :: int
  h_balance :: real
  h_shares_held :: int
  h_reward :: real

text \<open>The \<open>info\<close> dictionaries: \<open>{"final_balance": b}\<close> of the end-of-data branch,
  \<open>{"balance": b, "shares_held": n, "current_spread": p}\<close> of a normal step and
  \<open>{"initial_balance": b}\<close> of \<open>reset\<close>.\<close>

datatype info = Final_balance real | Step_info real int real | Initial_balance real

text \<open>
  The attributes of a \<open>CreditRSIEnv\<close> object. \<open>np_random_seed\<close> is the seed that
  \<open>gym.Env.reset(seed=...)\<close> stores for the environment's own generator \<open>self.np_random\<close>;
  \<open>observation_space\<close> is the pair \<open>(low, high)\<close> of the \<open>float32\<close> arrays the \<open>Box\<close> keeps. The
  attributes of the plot (\<open>render_mode\<close>, \<open>fig\<close>, \<open>ax1\<close>, \<open>ax2\<close>) are left out.
\<close>

record env =
  df :: "row list"
  window :: nat
  initial_balance :: real
  transaction_cost_rate :: real
  dv01_per_unit :: real
  current_step :: nat
  max_steps :: nat
  observation_space :: "fl list \<times> fl list"
  balance :: real
  shares_held :: int
  episode_history :: "history_entry list"
  np_random_seed :: "int option"

text \<open>What \<open>step\<close> returns: \<open>(observation, reward, done, truncated, info)\<close>; the
  field for \<open>done\<close> is \<open>done_flag\<close>.\<close>

record step_result =
  observation :: obs
  reward :: real
  done_flag :: bool
  truncated :: bool
  info :: info

text \<open>\<open>df.iloc[i]\<close> for an index \<open>i \<ge> 0\<close>: \<open>IndexError\<close> past the last row.\<close>

definition iloc :: "'a list \<Rightarrow> nat \<Rightarrow> error + 'a" where
  "iloc xs i = (if i < length xs then Inr (xs ! i) else Inl IndexError)"

subsection \<open>\<open>CreditRSIEnv.__init__\<close>\<close>

text \<open>
  Lines 117 to 125: the columns \<open>rsi\<close> and \<open>spread_change\<close> (\<open>diff().fillna(0)\<close>) are added,
  then \<open>dropna\<close> and \<open>reset_index\<close>. The prices are finite and \<open>calculate_rsi\<close> and
  \<open>fillna(0)\<close> leave no \<open>NaN\<close>, so \<open>dropna\<close> drops no row.
\<close>

definition preprocess :: "real list \<Rightarrow> nat \<Rightarrow> error + row list" where
  "preprocess prices w =
     (case calculate_rsi prices w of
        Inl err \<Rightarrow> Inl err
      | Inr rsis \<Rightarrow>
          (let changes = map (\<lambda>d. case d of None \<Rightarrow> 0 | Some x \<Rightarrow> x) (diff prices)
           in Inr (map (\<lambda>(p, r, c). \<lparr>price = p, rsi = r, spread_change = c\<rparr>)
                       (zip prices (zip rsis changes)))))"

definition column_min :: "real list \<Rightarrow> real" where
  "column_min xs = fold min (tl xs) (hd xs)"

definition column_max :: "real list \<Rightarrow> real" where
  "column_max xs = fold max (tl xs) (hd xs)"

definition max_shares :: int where
  "max_shares = 10"

text \<open>Lines 143 to 160: the two arrays of bounds, \<open>float64\<close> arrays in the source.\<close>

definition low_bounds :: "row list \<Rightarrow> real \<Rightarrow> real list" where
  "low_bounds rows initial_bal =
     [column_min (map price rows) * 0.9,
      0,
      - real_of_int max_shares,
      - initial_bal * 0.5,
      column_min (map spread_change rows)]"

definition high_bounds :: "row list \<Rightarrow> real \<Rightarrow> real list" where
  "high_bounds rows initial_bal =
     [column_max (map price rows) * 1.1,
      100,
      real_of_int max_shares,
      initial_bal * 5,
      column_max (map spread_change rows)]"

text \<open>
  \<open>spaces.Box(low=low_bounds, high=high_bounds, dtype=np.float32)\<close> of gymnasium 1.x on
  two \<open>float64\<close> arrays of finite numbers: it raises \<open>ValueError\<close> when an entry of
  \<open>low\<close> is below the range of \<open>float32\<close> or an entry of \<open>high\<close> above it, then casts
  both arrays to \<open>float32\<close> and raises \<open>ValueError\<close> when an entry of \<open>low\<close> is then
  greater than its entry of \<open>high\<close>. The space keeps the two cast arrays.
\<close>

definition box :: "real list \<Rightarrow> real list \<Rightarrow> error + fl list \<times> fl list" where
  "box low high =
     (if list_ex (\<lambda>x. x < - float32_max) low then Inl ValueError
      else if list_ex (\<lambda>x. float32_max < x) high then Inl ValueError
      else let low32 = map astype_float32 low; high32 = map astype_float32 high
           in if list_ex (\<lambda>(l, h). fl_less h l) (zip low32 high32) then Inl ValueError
              else Inr (low32, high32))"

text \<open>The attributes \<open>__init__\<close> assigns when nothing has raised.\<close>

definition new_env ::
  "row list \<Rightarrow> nat \<Rightarrow> real \<Rightarrow> real \<Rightarrow> real \<Rightarrow> fl list \<times> fl list \<Rightarrow> env" where
  "new_env rows w initial_bal cost_rate fixed_cs01_per_unit space =
     \<lparr>df = rows,
      window = w,
      initial_balance = initial_bal,
      transaction_cost_rate = cost_rate,
      dv01_per_unit = fixed_cs01_per_unit,
      current_step = 0,
      max_steps = length rows - 1,
      observation_space = space,
      balance = initial_bal,
      shares_held = 0,
      episode_history = [],
      np_random_seed = None\<rparr>"

definition init :: "real list \<Rightarrow> nat \<Rightarrow> real \<Rightarrow> real \<Rightarrow> real \<Rightarrow> error + env" where
  "init prices w initial_bal cost_rate fixed_cs01_per_unit =
     (case preprocess prices w of
        Inl err \<Rightarrow> Inl err
      | Inr rows \<Rightarrow>
          if rows = [] then Inl ValueError
          else if length rows < w + 2 then Inl ValueError
          else
            (case box (low_bounds rows initial_bal) (high_bounds rows initial_bal) of
               Inl err \<Rightarrow> Inl err
             | Inr space \<Rightarrow>
                 Inr (new_env rows w initial_bal cost_rate fixed_cs01_per_unit space)))"

subsection \<open>\<open>CreditRSIEnv._get_obs\<close>\<close>

definition get_obs :: "env \<Rightarrow> error + obs" where
  "get_obs e =
     (case iloc (df e) (current_step e) of
        Inl err \<Rightarrow> Inl err
      | Inr current_data \<Rightarrow>
          Inr \<lparr>obs_spread = price current_data,
               obs_rsi = rsi current_data,
               obs_shares_held = real_of_int (shares_held e),
               obs_balance = balance e,
               obs_spread_change = spread_change current_data\<rparr>)"

subsection \<open>\<open>CreditRSIEnv.step\<close>\<close>

text \<open>Lines 234 to 254, the transaction logic: the object after the action, given the
  cost of one unit.\<close>

definition transact :: "env \<Rightarrow> real \<Rightarrow> int \<Rightarrow> env" where
  "transact e transaction_cost_per_unit action =
     (if action = 1 then
        (if balance e \<ge> transaction_cost_per_unit
         then e\<lparr>balance := balance e - transaction_cost_per_unit,
                shares_held := shares_held e + 1\<rparr>
         else e)
      else if action = 2 then
        (if shares_held e > 0
         then e\<lparr>balance := balance e - transaction_cost_per_unit,
                shares_held := shares_held e - 1\<rparr>
         else if shares_held e \<le> 0 \<and> balance e \<ge> transaction_cost_per_unit
         then e\<lparr>balance := balance e - transaction_cost_per_unit,
                shares_held := shares_held e - 1\<rparr>
         else e)
      else e)"

text \<open>Lines 258 to 269, reward and penalties: \<open>(done, reward)\<close> from the object after the
  transaction and the step's profit and loss.\<close>

definition shaping :: "env \<Rightarrow> real \<Rightarrow> bool \<times> real" where
  "shaping e pnl_from_open_positions =
     (if balance e < 0 then (True, pnl_from_open_positions - initial_balance e * 0.5)
      else if balance e < initial_balance e * 0.5
      then (True, pnl_from_open_positions - initial_balance e * 0.1)
      else (False, pnl_from_open_positions))"

definition step :: "env \<Rightarrow> int \<Rightarrow> env \<times> (error + step_result)" where
  "step e action =
     (case iloc (df e) (current_step e) of
        Inl err \<Rightarrow> (e, Inl err)
      | Inr previous_row \<Rightarrow>
          (let previous_spread = price previous_row;
               e1 = e\<lparr>current_step := current_step e + 1\<rparr>
           in if current_step e1 > max_steps e1 then
                (case get_obs e1 of
                   Inl err \<Rightarrow> (e1, Inl err)
                 | Inr ob \<Rightarrow>
                     (e1, Inr \<lparr>observation = ob, reward = 0, done_flag = True, truncated = False,
                               info = Final_balance (balance e1)\<rparr>))
              else
                (case iloc (df e1) (current_step e1) of
                   Inl err \<Rightarrow> (e1, Inl err)
                 | Inr current_row \<Rightarrow>
                     (let current_spread = price current_row;
                          spread_change_bps = current_spread - previous_spread;
                          pnl_from_open_positions =
                            real_of_int (shares_held e1) * spread_change_bps * dv01_per_unit e1;
                          e2 = e1\<lparr>balance := balance e1 + pnl_from_open_positions\<rparr>;
                          transaction_cost_per_unit = dv01_per_unit e2 * transaction_cost_rate e2;
                          e3 = transact e2 transaction_cost_per_unit action;
                          (done_now, reward_now) = shaping e3 pnl_from_open_positions;
                          e4 = e3\<lparr>episode_history := episode_history e3 @
                                 [\<lparr>h_step = current_step e3, h_price = current_spread,
                                   h_rsi = rsi current_row, h_action = action,
                                   h_balance = balance e3, h_shares_held = shares_held e3,
                                   h_reward = reward_now\<rparr>]\<rparr>
                      in case get_obs e4 of
                           Inl err \<Rightarrow> (e4, Inl err)
                         | Inr ob \<Rightarrow>
                             (e4, Inr \<lparr>observation = ob, reward = reward_now, done_flag = done_now,
                                       truncated = False,
                                       info = Step_info (balance e4) (shares_held e4)
                                                current_spread\<rparr>)))))"

subsection \<open>\<open>CreditRSIEnv.step\<close> with rounding\<close>

text \<open>
  \<open>step\<close> once more, with the rounding of the floating-point operations made explicit:
  \<open>r\<close> is applied to the result of every operation of \<open>step\<close> whose operands are floats
  (lines 218, 222, 225, 229, 237, 247, 251, 264, 267 and 269). With \<open>round_double\<close> for
  \<open>r\<close> this is the arithmetic of the source; with the identity it is \<open>step\<close>.
\<close>

definition transact_rounded :: "(real \<Rightarrow> real) \<Rightarrow> env \<Rightarrow> real \<Rightarrow> int \<Rightarrow> env" where
  "transact_rounded r e transaction_cost_per_unit action =
     (if action = 1 then
        (if balance e \<ge> transaction_cost_per_unit
         then e\<lparr>balance := r (balance e - transaction_cost_per_unit),
                shares_held := shares_held e + 1\<rparr>
         else e)
      else if action = 2 then
        (if shares_held e > 0
         then e\<lparr>balance := r (balance e - transaction_cost_per_unit),
                shares_held := shares_held e - 1\<rparr>
         else if shares_held e \<le> 0 \<and> balance e \<ge> transaction_cost_per_unit
         then e\<lparr>balance := r (balance e - transaction_cost_per_unit),
                shares_held := shares_held e - 1\<rparr>
         else e)
      else e)"

definition shaping_rounded :: "(real \<Rightarrow> real) \<Rightarrow> env \<Rightarrow> real \<Rightarrow> bool \<times> real" where
  "shaping_rounded r e pnl_from_open_positions =
     (if balance e < 0
      then (True, r (pnl_from_open_positions - r (initial_balance e * 0.5)))
      else if balance e < r (initial_balance e * 0.5)
      then (True, r (pnl_from_open_positions - r (initial_balance e * 0.1)))
      else (False, pnl_from_open_positions))"

definition step_rounded :: "(real \<Rightarrow> real) \<Rightarrow> env \<Rightarrow> int \<Rightarrow> env \<times> (error + step_result)" where
  "step_rounded r e action =
     (case iloc (df e) (current_step e) of
        Inl err \<Rightarrow> (e, Inl err)
      | Inr previous_row \<Rightarrow>
          (let previous_spread = price previous_row;
               e1 = e\<lparr>current_step := current_step e + 1\<rparr>
           in if current_step e1 > max_steps e1 then
                (case get_obs e1 of
                   Inl err \<Rightarrow> (e1, Inl err)
                 | Inr ob \<Rightarrow>
                     (e1, Inr \<lparr>observation = ob, reward = 0, done_flag = True, truncated = False,
                               info = Final_balance (balance e1)\<rparr>))
              else
                (case iloc (df e1) (current_step e1) of
                   Inl err \<Rightarrow> (e1, Inl err)
                 | Inr current_row \<Rightarrow>
                     (let current_spread = price current_row;
                          spread_change_bps = r (current_spread - previous_spread);
                          pnl_from_open_positions =
                            r (r (real_of_int (shares_held e1) * spread_change_bps)
                               * dv01_per_unit e1);
                          e2 = e1\<lparr>balance := r (balance e1 + pnl_from_open_positions)\<rparr>;
                          transaction_cost_per_unit =
                            r (dv01_per_unit e2 * transaction_cost_rate e2);
                          e3 = transact_rounded r e2 transaction_cost_per_unit action;
                          (done_now, reward_now) = shaping_rounded r e3 pnl_from_open_positions;
                          e4 = e3\<lparr>episode_history := episode_history e3 @
                                 [\<lparr>h_step = current_step e3, h_price = current_spread,
                                   h_rsi = rsi current_row, h_action = action,
                                   h_balance = balance e3, h_shares_held = shares_held e3,
                                   h_reward = reward_now\<rparr>]\<rparr>
                      in case get_obs e4 of
                           Inl err \<Rightarrow> (e4, Inl err)
                         | Inr ob \<Rightarrow>
                             (e4, Inr \<lparr>observation = ob, reward = reward_now, done_flag = done_now,
                                       truncated = False,
                                       info = Step_info (balance e4) (shares_held e4)
                                                current_spread\<rparr>)))))"

subsection \<open>\<open>CreditRSIEnv.reset\<close>\<close>

text \<open>
  \<open>reset\<close> draws the start index with \<open>random.randint\<close>, the generator of Python's module
  \<open>random\<close>, which is global to the process and not part of the object. Its state is a
  value of type \<open>'g\<close>, and \<open>randint g a b\<close> is the number drawn from \<open>a..b\<close> together with
  the generator's next state. \<open>super().reset(seed=seed)\<close> stores a seed that is not
  \<open>None\<close> for the object's own generator.
\<close>

definition super_reset :: "env \<Rightarrow> int option \<Rightarrow> env" where
  "super_reset e seed = (case seed of None \<Rightarrow> e | Some s \<Rightarrow> e\<lparr>np_random_seed := Some s\<rparr>)"

definition reset ::
  "('g \<Rightarrow> int \<Rightarrow> int \<Rightarrow> int \<times> 'g) \<Rightarrow> env \<Rightarrow> 'g \<Rightarrow> int option
     \<Rightarrow> (env \<times> 'g) \<times> (error + obs \<times> info)" where
  "reset randint e g seed =
     (let e1 = (super_reset e seed)\<lparr>balance := initial_balance e, shares_held := 0,
                                     episode_history := []\<rparr>;
          min_start_index = int (window e1) + 1;
          max_start_index = int (max_steps e1) - 100;
          (start, g') = (if max_start_index < min_start_index then (min_start_index, g)
                         else randint g min_start_index max_start_index);
          e2 = e1\<lparr>current_step := nat start\<rparr>
      in case get_obs e2 of
           Inl err \<Rightarrow> ((e2, g'), Inl err)
         | Inr ob \<Rightarrow> ((e2, g'), Inr (ob, Initial_balance (initial_balance e2))))"

section \<open>Vocabulary of the properties\<close>

text \<open>What \<open>__init__\<close> establishes and neither \<open>step\<close> nor \<open>reset\<close> changes: the data
  frame is not empty and \<open>max_steps\<close> is its last index.\<close>

definition valid_env :: "env \<Rightarrow> bool" where
  "valid_env e = (df e \<noteq> [] \<and> max_steps e = length (df e) - 1)"

text \<open>The mark-to-market profit and loss of the step that starts in \<open>e\<close>: the position
  times the price change to the next row times the multiplier.\<close>

definition mtm :: "env \<Rightarrow> real" where
  "mtm e = real_of_int (shares_held e)
             * (price (df e ! (current_step e + 1)) - price (df e ! current_step e))
             * dv01_per_unit e"

text \<open>The cost of trading one unit.\<close>

definition cost_per_unit :: "env \<Rightarrow> real" where
  "cost_per_unit e = dv01_per_unit e * transaction_cost_rate e"

text \<open>The object after the index has advanced and the balance is marked to market
  (lines 204 and 225), before the transaction.\<close>

definition marked :: "env \<Rightarrow> env" where
  "marked e = e\<lparr>current_step := current_step e + 1, balance := balance e + mtm e\<rparr>"

text \<open>An episode: the actions are fed to \<open>step\<close> one after the other; an exception ends
  the run.\<close>

fun run :: "env \<Rightarrow> int list \<Rightarrow> error + env" where
  "run e [] = Inr e"
| "run e (a # as) = (case step e a of (e', Inl err) \<Rightarrow> Inl err | (e', Inr r) \<Rightarrow> run e' as)"

text \<open>The sum of the mark-to-market results of the steps of an episode, and the number of
  its steps that trade a unit (the position changes).\<close>

fun pnl_sum :: "env \<Rightarrow> int list \<Rightarrow> real" where
  "pnl_sum e [] = 0"
| "pnl_sum e (a # as) = mtm e + pnl_sum (fst (step e a)) as"

fun trade_count :: "env \<Rightarrow> int list \<Rightarrow> nat" where
  "trade_count e [] = 0"
| "trade_count e (a # as) =
     (if shares_held (fst (step e a)) \<noteq> shares_held e then 1 else 0)
     + trade_count (fst (step e a)) as"

text \<open>An episode of \<open>step_rounded\<close>, and the position and balance it ends with.\<close>

fun run_rounded :: "(real \<Rightarrow> real) \<Rightarrow> env \<Rightarrow> int list \<Rightarrow> error + env" where
  "run_rounded r e [] = Inr e"
| "run_rounded r e (a # as) =
     (case step_rounded r e a of (e', Inl err) \<Rightarrow> Inl err | (e', Inr res) \<Rightarrow> run_rounded r e' as)"

definition final_position_balance :: "error + env \<Rightarrow> error + int \<times> real" where
  "final_position_balance x = map_sum id (\<lambda>e. (shares_held e, balance e)) x"

text \<open>The purchases of an episode on a series of constant price, on the pair
  \<open>(shares_held, balance)\<close> alone: a step rounds the balance, to which it has added a
  mark-to-market result of 0, and if the balance covers the cost \<open>c\<close> of a unit it adds
  a unit and subtracts the cost.\<close>

fun flat_buys :: "(real \<Rightarrow> real) \<Rightarrow> real \<Rightarrow> nat \<Rightarrow> int \<times> real \<Rightarrow> int \<times> real" where
  "flat_buys r c 0 sb = sb"
| "flat_buys r c (Suc k) sb =
     flat_buys r c k
       (if c \<le> r (snd sb) then (fst sb + 1, r (r (snd sb) - c)) else (fst sb, r (snd sb)))"

subsection \<open>Concrete environments\<close>

text \<open>A stand-in for the global generator: its state counts the draws, and the
  \<open>g\<close>-th draw from \<open>a..b\<close> is \<open>a + g mod (b - a + 1)\<close>.\<close>

definition counter_randint :: "nat \<Rightarrow> int \<Rightarrow> int \<Rightarrow> int \<times> nat" where
  "counter_randint g a b = (a + int g mod (b - a + 1), g + 1)"

text \<open>\<open>CreditRSIEnv(df, window=1, initial_balance=10000, transaction_cost_rate=0.0005,
  fixed_cs01_per_unit=100000)\<close> on six prices, and the object after \<open>reset()\<close>: the series
  is too short for a random start, the episode starts at index 2.\<close>

definition demo_base :: env where
  "demo_base = projr (init [100, 100, 100, 100, 99, 98] 1 10000 0.0005 100000)"

definition demo_env :: env where
  "demo_env = fst (fst (reset counter_randint demo_base 0 None))"

text \<open>\<open>demo_env\<close> after \<open>step(1)\<close>: one unit long at index 3; and after a further
  \<open>step(0)\<close>, which the fall of the price to 99 ends with \<open>done\<close>.\<close>

definition long_env :: env where
  "long_env = fst (step demo_env 1)"

definition ruined_env :: env where
  "ruined_env = fst (step long_env 0)"

text \<open>The same constructor on four prices with \<open>window=2\<close>, the shortest series
  it accepts, and the object after \<open>reset()\<close>: the episode starts at index 3, the last
  row.\<close>

definition last_row_base :: env where
  "last_row_base = projr (init [100, 101, 100, 102] 2 10000 0.0005 100000)"

definition last_row_env :: env where
  "last_row_env = fst (fst (reset counter_randint last_row_base 0 None))"

text \<open>Fourteen rows of the constant price 100 with \<open>window=1\<close>, and the object after
  \<open>reset()\<close>: the episode starts at index 2 and has eleven steps before the last row.\<close>

definition flat_base :: env where
  "flat_base = projr (init (replicate 14 100) 1 10000 0.0005 100000)"

definition flat_env :: env where
  "flat_env = fst (fst (reset counter_randint flat_base 0 None))"

text \<open>110 rows with \<open>window=1\<close>, as constructed: \<open>reset\<close> draws the start index from
  \<open>2..9\<close>.\<close>

definition long_series_env :: env where
  "long_series_env = projr (init (replicate 110 100) 1 10000 0.0005 100000)"

text \<open>\<open>CreditRSIEnv(df, window=1, initial_balance=1.0, transaction_cost_rate=0.1,
  fixed_cs01_per_unit=1)\<close> on fourteen rows of the constant price 100, and the object
  after \<open>reset()\<close>. The literal \<open>0.1\<close> of the source is the double nearest to one tenth.\<close>

definition dime_base :: env where
  "dime_base = projr (init (replicate 14 100) 1 1 (round_double 0.1) 1)"

definition dime_env :: env where
  "dime_env = fst (fst (reset counter_randint dime_base 0 None))"

text \<open>The rows of a series of constant price.\<close>

definition flat_rows :: "nat \<Rightarrow> real \<Rightarrow> row list" where
  "flat_rows n p = replicate n \<lparr>price = p, rsi = 50, spread_change = 0\<rparr>"

text \<open>The position at the end of an episode, or the exception that ended it.\<close>

definition final_shares :: "error + env \<Rightarrow> error + int" where
  "final_shares r = map_sum id shares_held r"


section \<open>Evaluation of the constructor\<close>

text \<open>One step of \<open>scale\<close>, whatever the form of the step count.\<close>

lemma scale_unfold:
  "0 < n \<Longrightarrow> scale n hi emin y e =
     (if hi \<le> y then scale (n - 1) hi emin (y / 2) (e + 1)
      else if y < hi / 2 \<and> emin < e then scale (n - 1) hi emin (y * 2) (e - 1)
      else (y, e))"
  by (cases n) simp_all

lemmas rounding_eval = round_to_def round_half_even_def scale_unfold Let_def

lemma box_error: "box low high = Inl err \<Longrightarrow> err = ValueError"
  by (simp add: box_def Let_def split: if_splits)

text \<open>The constructor as a case distinction: an empty frame is a short one, and every
  exception is a \<open>ValueError\<close>.\<close>

lemma init_cases:
  assumes "preprocess prices w = Inr rows"
  shows "init prices w ib cr cs =
     (if length rows < w + 2 then Inl ValueError
      else case box (low_bounds rows ib) (high_bounds rows ib) of
             Inl err \<Rightarrow> Inl ValueError
           | Inr space \<Rightarrow> Inr (new_env rows w ib cr cs space))"
proof -
  have "rows = [] \<Longrightarrow> length rows < w + 2" by simp
  then show ?thesis
    by (auto simp: init_def assms split: sum.splits dest: box_error)
qed

text \<open>The double nearest to one tenth.\<close>

lemma round_double_tenth: "round_double 0.1 = 3602879701896397 / 36028797018963968"
  by (simp add: round_double_def rounding_eval)

text \<open>The objects that the constructor returns on the series of the concrete
  environments: the rows by evaluation of \<open>calculate_rsi\<close>, the space by evaluation of
  the casts.\<close>

lemma demo_rows:
  "preprocess [100, 100, 100, 100, 99, 98] 1 =
     Inr [\<lparr>price = 100, rsi = 50, spread_change = 0\<rparr>,
          \<lparr>price = 100, rsi = 50, spread_change = 0\<rparr>,
          \<lparr>price = 100, rsi = 50, spread_change = 0\<rparr>,
          \<lparr>price = 100, rsi = 50, spread_change = 0\<rparr>,
          \<lparr>price = 99, rsi = 0, spread_change = - 1\<rparr>,
          \<lparr>price = 98, rsi = 0, spread_change = - 1\<rparr>]"
  by code_simp

lemma demo_bounds:
  "low_bounds [\<lparr>price = 100, rsi = 50, spread_change = 0\<rparr>,
          \<lparr>price = 100, rsi = 50, spread_change = 0\<rparr>,
          \<lparr>price = 100, rsi = 50, spread_change = 0\<rparr>,
          \<lparr>price = 100, rsi = 50, spread_change = 0\<rparr>,
          \<lparr>price = 99, rsi = 0, spread_change = - 1\<rparr>,
          \<lparr>price = 98, rsi = 0, spread_change = - 1\<rparr>] 10000 = [441 / 5, 0, - 10, - 5000, - 1]"
  "high_bounds [\<lparr>price = 100, rsi = 50, spread_change = 0\<rparr>,
          \<lparr>price = 100, rsi = 50, spread_change = 0\<rparr>,
          \<lparr>price = 100, rsi = 50, spread_change = 0\<rparr>,
          \<lparr>price = 100, rsi = 50, spread_change = 0\<rparr>,
          \<lparr>price = 99, rsi = 0, spread_change = - 1\<rparr>,
          \<lparr>price = 98, rsi = 0, spread_change = - 1\<rparr>] 10000 = [110, 100, 10, 50000, 0]"
  by code_simp+

lemma demo_box:
  "box [441 / 5, 0, - 10, - 5000, - 1] [110, 100, 10, 50000, 0] =
     Inr ([Fin (5780275 / 65536), Fin 0, Fin (- 10), Fin (- 5000), Fin (- 1)],
          [Fin 110, Fin 100, Fin 10, Fin 50000, Fin 0])"
  by (simp add: box_def astype_float32_def float32_max_def rounding_eval)

lemma demo_init:
  "init [100, 100, 100, 100, 99, 98] 1 10000 0.0005 100000 =
     Inr (new_env [\<lparr>price = 100, rsi = 50, spread_change = 0\<rparr>,
          \<lparr>price = 100, rsi = 50, spread_change = 0\<rparr>,
          \<lparr>price = 100, rsi = 50, spread_change = 0\<rparr>,
          \<lparr>price = 100, rsi = 50, spread_change = 0\<rparr>,
          \<lparr>price = 99, rsi = 0, spread_change = - 1\<rparr>,
          \<lparr>price = 98, rsi = 0, spread_change = - 1\<rparr>] 1 10000 0.0005 100000
            ([Fin (5780275 / 65536), Fin 0, Fin (- 10), Fin (- 5000), Fin (- 1)],
             [Fin 110, Fin 100, Fin 10, Fin 50000, Fin 0]))"
  by (simp only: init_cases[OF demo_rows] demo_bounds demo_box) simp


lemma last_row_rows:
  "preprocess [100, 101, 100, 102] 2 =
     Inr [\<lparr>price = 100, rsi = 50, spread_change = 0\<rparr>,
          \<lparr>price = 101, rsi = 50, spread_change = 1\<rparr>,
          \<lparr>price = 100, rsi = 100 / 3, spread_change = - 1\<rparr>,
          \<lparr>price = 102, rsi = 900 / 11, spread_change = 2\<rparr>]"
  by code_simp

lemma last_row_bounds:
  "low_bounds [\<lparr>price = 100, rsi = 50, spread_change = 0\<rparr>,
          \<lparr>price = 101, rsi = 50, spread_change = 1\<rparr>,
          \<lparr>price = 100, rsi = 100 / 3, spread_change = - 1\<rparr>,
          \<lparr>price = 102, rsi = 900 / 11, spread_change = 2\<rparr>] 10000 = [90, 0, - 10, - 5000, - 1]"
  "high_bounds [\<lparr>price = 100, rsi = 50, spread_change = 0\<rparr>,
          \<lparr>price = 101, rsi = 50, spread_change = 1\<rparr>,
          \<lparr>price = 100, rsi = 100 / 3, spread_change = - 1\<rparr>,
          \<lparr>price = 102, rsi = 900 / 11, spread_change = 2\<rparr>] 10000 = [561 / 5, 100, 10, 50000, 2]"
  by code_simp+

lemma last_row_box:
  "box [90, 0, - 10, - 5000, - 1] [561 / 5, 100, 10, 50000, 2] =
     Inr ([Fin 90, Fin 0, Fin (- 10), Fin (- 5000), Fin (- 1)],
          [Fin (7353139 / 65536), Fin 100, Fin 10, Fin 50000, Fin 2])"
  by (simp add: box_def astype_float32_def float32_max_def rounding_eval)

lemma last_row_init:
  "init [100, 101, 100, 102] 2 10000 0.0005 100000 =
     Inr (new_env [\<lparr>price = 100, rsi = 50, spread_change = 0\<rparr>,
          \<lparr>price = 101, rsi = 50, spread_change = 1\<rparr>,
          \<lparr>price = 100, rsi = 100 / 3, spread_change = - 1\<rparr>,
          \<lparr>price = 102, rsi = 900 / 11, spread_change = 2\<rparr>] 2 10000 0.0005 100000
            ([Fin 90, Fin 0, Fin (- 10), Fin (- 5000), Fin (- 1)],
             [Fin (7353139 / 65536), Fin 100, Fin 10, Fin 50000, Fin 2]))"
  by (simp only: init_cases[OF last_row_rows] last_row_bounds last_row_box) simp

lemma last_row_base_code [code]:
  "last_row_base =
     new_env [\<lparr>price = 100, rsi = 50, spread_change = 0\<rparr>,
          \<lparr>price = 101, rsi = 50, spread_change = 1\<rparr>,
          \<lparr>price = 100, rsi = 100 / 3, spread_change = - 1\<rparr>,
          \<lparr>price = 102, rsi = 900 / 11, spread_change = 2\<rparr>] 2 10000 0.0005 100000
       ([Fin 90, Fin 0, Fin (- 10), Fin (- 5000), Fin (- 1)],
        [Fin (7353139 / 65536), Fin 100, Fin 10, Fin 50000, Fin 2])"
  by (simp only: last_row_base_def last_row_init sum.sel)

lemma flat_preprocess:
  "preprocess (replicate 14 100) 1 = Inr (flat_rows 14 100)"
  "preprocess (replicate 110 100) 1 = Inr (flat_rows 110 100)"
  by code_simp+

lemma flat_bounds:
  "low_bounds (flat_rows 14 100) 10000 = [90, 0, - 10, - 5000, 0]"
  "high_bounds (flat_rows 14 100) 10000 = [110, 100, 10, 50000, 0]"
  "low_bounds (flat_rows 110 100) 10000 = [90, 0, - 10, - 5000, 0]"
  "high_bounds (flat_rows 110 100) 10000 = [110, 100, 10, 50000, 0]"
  "low_bounds (flat_rows 14 100) 1 = [90, 0, - 10, - 1 / 2, 0]"
  "high_bounds (flat_rows 14 100) 1 = [110, 100, 10, 5, 0]"
  by code_simp+

lemma flat_box:
  "box [90, 0, - 10, - 5000, 0] [110, 100, 10, 50000, 0] =
     Inr ([Fin 90, Fin 0, Fin (- 10), Fin (- 5000), Fin 0],
          [Fin 110, Fin 100, Fin 10, Fin 50000, Fin 0])"
  "box [90, 0, - 10, - 1 / 2, 0] [110, 100, 10, 5, 0] =
     Inr ([Fin 90, Fin 0, Fin (- 10), Fin (- 1 / 2), Fin 0],
          [Fin 110, Fin 100, Fin 10, Fin 5, Fin 0])"
  by (simp_all add: box_def astype_float32_def float32_max_def rounding_eval)

lemma flat_init:
  "init (replicate 14 100) 1 10000 0.0005 100000 =
     Inr (new_env (flat_rows 14 100) 1 10000 0.0005 100000
            ([Fin 90, Fin 0, Fin (- 10), Fin (- 5000), Fin 0],
             [Fin 110, Fin 100, Fin 10, Fin 50000, Fin 0]))"
  "init (replicate 110 100) 1 10000 0.0005 100000 =
     Inr (new_env (flat_rows 110 100) 1 10000 0.0005 100000
            ([Fin 90, Fin 0, Fin (- 10), Fin (- 5000), Fin 0],
             [Fin 110, Fin 100, Fin 10, Fin 50000, Fin 0]))"
  "init (replicate 14 100) 1 1 (round_double 0.1) 1 =
     Inr (new_env (flat_rows 14 100) 1 1 (3602879701896397 / 36028797018963968) 1
            ([Fin 90, Fin 0, Fin (- 10), Fin (- 1 / 2), Fin 0],
             [Fin 110, Fin 100, Fin 10, Fin 5, Fin 0]))"
  by (simp_all only: init_cases[OF flat_preprocess(1)] init_cases[OF flat_preprocess(2)]
        flat_bounds flat_box round_double_tenth) (simp_all add: flat_rows_def)

lemma flat_base_code [code]:
  "flat_base =
     new_env (flat_rows 14 100) 1 10000 0.0005 100000
       ([Fin 90, Fin 0, Fin (- 10), Fin (- 5000), Fin 0],
        [Fin 110, Fin 100, Fin 10, Fin 50000, Fin 0])"
  by (simp only: flat_base_def flat_init sum.sel)

lemma long_series_env_code [code]:
  "long_series_env =
     new_env (flat_rows 110 100) 1 10000 0.0005 100000
       ([Fin 90, Fin 0, Fin (- 10), Fin (- 5000), Fin 0],
        [Fin 110, Fin 100, Fin 10, Fin 50000, Fin 0])"
  by (simp only: long_series_env_def flat_init sum.sel)

lemma dime_base_code [code]:
  "dime_base =
     new_env (flat_rows 14 100) 1 1 (3602879701896397 / 36028797018963968) 1
       ([Fin 90, Fin 0, Fin (- 10), Fin (- 1 / 2), Fin 0],
        [Fin 110, Fin 100, Fin 10, Fin 5, Fin 0])"
  by (simp only: dime_base_def flat_init sum.sel)

section \<open>Properties of \<open>step\<close>\<close>

lemma transact_frame [simp]:
  "df (transact e c a) = df e"
  "current_step (transact e c a) = current_step e"
  "max_steps (transact e c a) = max_steps e"
  "initial_balance (transact e c a) = initial_balance e"
  "dv01_per_unit (transact e c a) = dv01_per_unit e"
  "transaction_cost_rate (transact e c a) = transaction_cost_rate e"
  "window (transact e c a) = window e"
  "episode_history (transact e c a) = episode_history e"
  "observation_space (transact e c a) = observation_space e"
  "np_random_seed (transact e c a) = np_random_seed e"
  by (simp_all add: transact_def)

text \<open>A step with a row left runs through all of \<open>step\<close> and returns.\<close>

lemma step_running:
  assumes "valid_env e" and "current_step e < max_steps e"
  shows "step e a =
     (let e3 = transact (marked e) (cost_per_unit e) a;
          e4 = e3\<lparr>episode_history := episode_history e @
                 [\<lparr>h_step = current_step e + 1, h_price = price (df e ! (current_step e + 1)),
                   h_rsi = rsi (df e ! (current_step e + 1)), h_action = a,
                   h_balance = balance e3, h_shares_held = shares_held e3,
                   h_reward = snd (shaping e3 (mtm e))\<rparr>]\<rparr>
      in (e4, Inr \<lparr>observation =
                     \<lparr>obs_spread = price (df e ! (current_step e + 1)),
                      obs_rsi = rsi (df e ! (current_step e + 1)),
                      obs_shares_held = real_of_int (shares_held e3),
                      obs_balance = balance e3,
                      obs_spread_change = spread_change (df e ! (current_step e + 1))\<rparr>,
                   reward = snd (shaping e3 (mtm e)),
                   done_flag = fst (shaping e3 (mtm e)),
                   truncated = False,
                   info = Step_info (balance e3) (shares_held e3)
                            (price (df e ! (current_step e + 1)))\<rparr>))"
proof -
  from assms have len: "current_step e + 1 < length (df e)" "current_step e < length (df e)"
    by (auto simp: valid_env_def)
  have le: "\<not> current_step e + 1 > max_steps e" using assms by simp
  show ?thesis
    using len le
    by (simp add: step_def iloc_def get_obs_def Let_def marked_def mtm_def cost_per_unit_def
        split: prod.splits)
qed

text \<open>At the last row the index is advanced and \<open>_get_obs\<close> reads past the data frame;
  past the last row the first read of \<open>step\<close> already fails.\<close>

lemma step_end_of_data:
  assumes "valid_env e" and "current_step e = max_steps e"
  shows "step e a = (e\<lparr>current_step := current_step e + 1\<rparr>, Inl IndexError)"
  using assms by (auto simp: step_def iloc_def get_obs_def Let_def valid_env_def)

lemma step_past_end:
  assumes "valid_env e" and "max_steps e < current_step e"
  shows "step e a = (e, Inl IndexError)"
  using assms by (auto simp: step_def iloc_def get_obs_def Let_def valid_env_def)

lemma step_returns_iff:
  assumes "valid_env e"
  shows "(\<exists>e' r. step e a = (e', Inr r)) \<longleftrightarrow> current_step e < max_steps e"
proof (cases "current_step e < max_steps e")
  case True
  then show ?thesis using step_running[OF assms True, of a] by (simp add: Let_def)
next
  case False
  then consider "current_step e = max_steps e" | "max_steps e < current_step e" by linarith
  then show ?thesis
    using False step_end_of_data[OF assms, of a] step_past_end[OF assms, of a] by cases auto
qed

lemma step_frame:
  "df (fst (step e a)) = df e"
  "max_steps (fst (step e a)) = max_steps e"
  "initial_balance (fst (step e a)) = initial_balance e"
  "dv01_per_unit (fst (step e a)) = dv01_per_unit e"
  "transaction_cost_rate (fst (step e a)) = transaction_cost_rate e"
  "window (fst (step e a)) = window e"
  by (simp_all add: step_def Let_def split: sum.splits prod.splits)

lemma step_valid: "valid_env e \<Longrightarrow> valid_env (fst (step e a))"
  by (simp add: valid_env_def step_frame)

lemma step_cost: "cost_per_unit (fst (step e a)) = cost_per_unit e"
  by (simp add: cost_per_unit_def step_frame)

lemma step_running_state:
  assumes "valid_env e" and "current_step e < max_steps e"
  shows "current_step (fst (step e a)) = current_step e + 1"
    and "shares_held (fst (step e a)) = shares_held (transact (marked e) (cost_per_unit e) a)"
    and "balance (fst (step e a)) = balance (transact (marked e) (cost_per_unit e) a)"
    and "\<exists>r. snd (step e a) = Inr r"
  unfolding step_running[OF assms] by (simp_all add: Let_def marked_def)

lemma step_balance:
  assumes "valid_env e" and "current_step e < max_steps e"
  shows "balance (fst (step e a)) =
           balance e + mtm e
           - (if shares_held (fst (step e a)) \<noteq> shares_held e then cost_per_unit e else 0)"
  unfolding step_running_state[OF assms] by (simp add: transact_def marked_def)

text \<open>A step changes the position by at most one unit.\<close>

lemma transact_position_change:
  "\<bar>shares_held (transact e c a) - shares_held e\<bar> \<le> 1"
  by (simp add: transact_def)

lemma step_position_change:
  assumes "valid_env e"
  shows "\<bar>shares_held (fst (step e a)) - shares_held e\<bar> \<le> 1"
proof -
  consider "current_step e < max_steps e" | "current_step e = max_steps e"
    | "max_steps e < current_step e" by linarith
  then show ?thesis
  proof cases
    case 1
    show ?thesis
      unfolding step_running_state(2)[OF assms 1]
      using transact_position_change[of "marked e" "cost_per_unit e" a]
      by (simp add: marked_def)
  next
    case 2
    then show ?thesis by (simp add: step_end_of_data[OF assms])
  next
    case 3
    then show ?thesis by (simp add: step_past_end[OF assms])
  qed
qed

lemma reset_state:
  "balance (fst (fst (reset randint e g seed))) = initial_balance e"
  "shares_held (fst (fst (reset randint e g seed))) = 0"
  "episode_history (fst (fst (reset randint e g seed))) = []"
  "df (fst (fst (reset randint e g seed))) = df e"
  "max_steps (fst (fst (reset randint e g seed))) = max_steps e"
  "initial_balance (fst (fst (reset randint e g seed))) = initial_balance e"
  "dv01_per_unit (fst (fst (reset randint e g seed))) = dv01_per_unit e"
  "transaction_cost_rate (fst (fst (reset randint e g seed))) = transaction_cost_rate e"
  "window (fst (fst (reset randint e g seed))) = window e"
  by (simp_all add: reset_def super_reset_def Let_def split: prod.splits sum.splits option.splits)

text \<open>The constructor accepts each of the series the concrete environments are built
  on.\<close>

lemma fixtures_constructed:
  "\<not> isl (init [100, 100, 100, 100, 99, 98] 1 10000 0.0005 100000)"
  "\<not> isl (init [100, 101, 100, 102] 2 10000 0.0005 100000)"
  "\<not> isl (init (replicate 14 100) 1 10000 0.0005 100000)"
  "\<not> isl (init (replicate 110 100) 1 10000 0.0005 100000)"
  "\<not> isl (init (replicate 14 100) 1 1 (round_double 0.1) 1)"
  by (simp_all only: demo_init last_row_init flat_init sum.disc not_False_eq_True)





lemma long_env_valid: "valid_env long_env"
  by code_simp

text \<open>
  Claim C4. In every step that returns, a resulting balance below zero sets \<open>done\<close> and
  the reward is the step's mark-to-market result less the ruin penalty
  \<open>0.5 * initial_balance\<close>; otherwise a resulting balance below \<open>0.5 * initial_balance\<close>
  (the source's drawdown threshold) sets \<open>done\<close> and the reward is the mark-to-market
  result less \<open>0.1 * initial_balance\<close>; otherwise \<open>done\<close> is false and the reward is the
  mark-to-market result. So at most one penalty is applied, ruin first.
\<close>

theorem termination_penalties:
  assumes "valid_env e" and "step e a = (e', Inr r)"
  shows "(balance e' < 0 \<longrightarrow>
            done_flag r \<and> reward r = mtm e - initial_balance e * 0.5)
       \<and> (0 \<le> balance e' \<and> balance e' < initial_balance e * 0.5 \<longrightarrow>
            done_flag r \<and> reward r = mtm e - initial_balance e * 0.1)
       \<and> (0 \<le> balance e' \<and> initial_balance e * 0.5 \<le> balance e' \<longrightarrow>
            \<not> done_flag r \<and> reward r = mtm e)"
proof -
  from assms have run: "current_step e < max_steps e"
    using step_returns_iff[OF assms(1), of a] by auto
  define e3 where "e3 = transact (marked e) (cost_per_unit e) a"
  from step_running[OF assms(1) run, of a] assms(2)
  have b: "balance e' = balance e3"
    and r: "reward r = snd (shaping e3 (mtm e))" "done_flag r = fst (shaping e3 (mtm e))"
    by (auto simp: Let_def e3_def)
  have ib: "initial_balance e3 = initial_balance e" by (simp add: e3_def marked_def)
  show ?thesis unfolding b r by (simp add: shaping_def ib)
qed

theorem termination_penalties_witness:
  "valid_env long_env
   \<and> step long_env 0 = (ruined_env, Inr (projr (snd (step long_env 0))))
   \<and> balance ruined_env < 0
   \<and> done_flag (projr (snd (step long_env 0)))
   \<and> reward (projr (snd (step long_env 0))) = - 105000"
proof -
  have s: "step long_env 0 = (ruined_env, Inr (projr (snd (step long_env 0))))"
    by code_simp
  have b: "balance ruined_env < 0" by code_simp
  have v: "mtm long_env - initial_balance long_env * 0.5 = - 105000" by code_simp
  from termination_penalties[OF long_env_valid s] b
  have "done_flag (projr (snd (step long_env 0)))"
    "reward (projr (snd (step long_env 0))) = mtm long_env - initial_balance long_env * 0.5"
    by blast+
  with s b v long_env_valid show ?thesis by simp
qed

text \<open>
  Claim C3 says that a step taken at the last row returns the existing observation with
  reward 0 and \<open>done\<close>. The source advances the index first and then reads the observation
  at the advanced index, one past the data frame: the step raises \<open>IndexError\<close>, for each
  of the three actions, and leaves the index advanced. Balance and position are not
  touched. Evaluated on the shortest series the constructor accepts, right after
  \<open>reset()\<close>.
\<close>

theorem step_at_last_row_raises:
  "current_step last_row_env = max_steps last_row_env
   \<and> step last_row_env 0 = (last_row_env\<lparr>current_step := 4\<rparr>, Inl IndexError)
   \<and> step last_row_env 1 = (last_row_env\<lparr>current_step := 4\<rparr>, Inl IndexError)
   \<and> step last_row_env 2 = (last_row_env\<lparr>current_step := 4\<rparr>, Inl IndexError)"
  by code_simp

text \<open>
  Claim C7 says that an action outside \<open>{0, 1, 2}\<close> makes \<open>step\<close> fail without a change
  of state. The source never checks the action: with the action 5 the step returns, the
  index has advanced and the balance is marked to market.
\<close>

theorem invalid_action_counterexample:
  "current_step long_env = 3 \<and> balance long_env = 9950
   \<and> snd (step long_env 5) =
       Inr \<lparr>observation = \<lparr>obs_spread = 99, obs_rsi = 0, obs_shares_held = 1,
                            obs_balance = - 90050, obs_spread_change = - 1\<rparr>,
            reward = - 105000, done_flag = True, truncated = False,
            info = Step_info (- 90050) 1 99\<rparr>
   \<and> current_step (fst (step long_env 5)) = 4
   \<and> balance (fst (step long_env 5)) = - 90050"
  by code_simp

text \<open>
  Claim C7 as amended. \<open>step\<close> does not validate the action: an action other than 1 and
  2, in the discrete set or outside it, is a hold. The result of the step is that of
  the action 0. With a row left the step returns, the index advances by one, the
  balance is marked to market, the position stays, and the object the step leaves is the
  one the action 0 leaves but for the action value in the history entry that the step
  appends; with no row left the step does what it does for the action 0.
\<close>

theorem invalid_action_is_hold:
  assumes "a \<noteq> 1" and "a \<noteq> 2" and "valid_env e"
  shows "snd (step e a) = snd (step e 0)
       \<and> (current_step e < max_steps e \<longrightarrow>
            (\<exists>r. snd (step e a) = Inr r)
            \<and> current_step (fst (step e a)) = current_step e + 1
            \<and> balance (fst (step e a)) = balance e + mtm e
            \<and> shares_held (fst (step e a)) = shares_held e
            \<and> (\<exists>entry. episode_history (fst (step e 0)) = episode_history e @ [entry]
                  \<and> fst (step e a) =
                      (fst (step e 0))\<lparr>episode_history :=
                         episode_history e @ [entry\<lparr>h_action := a\<rparr>]\<rparr>))
       \<and> (max_steps e \<le> current_step e \<longrightarrow> step e a = step e 0)"
proof -
  have t: "transact x c a = x" "transact x c 0 = x" for x c
    using assms(1,2) by (simp_all add: transact_def)
  have 1: "snd (step e a) = snd (step e 0)"
    by (simp add: step_def Let_def t get_obs_def split: sum.splits prod.splits)
  have 2: "(\<exists>r. snd (step e a) = Inr r)
            \<and> current_step (fst (step e a)) = current_step e + 1
            \<and> balance (fst (step e a)) = balance e + mtm e
            \<and> shares_held (fst (step e a)) = shares_held e
            \<and> (\<exists>entry. episode_history (fst (step e 0)) = episode_history e @ [entry]
                  \<and> fst (step e a) =
                      (fst (step e 0))\<lparr>episode_history :=
                         episode_history e @ [entry\<lparr>h_action := a\<rparr>]\<rparr>)"
    if run: "current_step e < max_steps e"
  proof -
    have s: "(\<exists>r. snd (step e a) = Inr r)
            \<and> current_step (fst (step e a)) = current_step e + 1
            \<and> balance (fst (step e a)) = balance e + mtm e
            \<and> shares_held (fst (step e a)) = shares_held e"
      using step_running_state[OF assms(3) run, of a] by (simp add: t marked_def)
    have h: "\<exists>entry. episode_history (fst (step e 0)) = episode_history e @ [entry]
                  \<and> fst (step e a) =
                      (fst (step e 0))\<lparr>episode_history :=
                         episode_history e @ [entry\<lparr>h_action := a\<rparr>]\<rparr>"
      unfolding step_running[OF assms(3) run] by (simp add: Let_def t marked_def)
    from s h show ?thesis by blast
  qed
  have 3: "step e a = step e 0" if "max_steps e \<le> current_step e"
  proof (cases "current_step e = max_steps e")
    case True
    then show ?thesis by (simp add: step_end_of_data[OF assms(3)])
  next
    case False
    with that have "max_steps e < current_step e" by simp
    then show ?thesis by (simp add: step_past_end[OF assms(3)])
  qed
  from 1 2 3 show ?thesis by blast
qed

theorem invalid_action_is_hold_witness:
  "(5::int) \<noteq> 1 \<and> (5::int) \<noteq> 2 \<and> valid_env long_env \<and> current_step long_env < max_steps long_env
   \<and> snd (step long_env 5) = snd (step long_env 0)
   \<and> current_step (fst (step long_env 5)) = 4
   \<and> balance (fst (step long_env 5)) = - 90050
   \<and> shares_held (fst (step long_env 5)) = 1
   \<and> map h_action (episode_history (fst (step long_env 5))) = [1, 5]
   \<and> map h_action (episode_history (fst (step long_env 0))) = [1, 0]"
proof -
  have v: "valid_env long_env" "current_step long_env < max_steps long_env" by code_simp+
  have c: "current_step long_env + 1 = 4" "balance long_env + mtm long_env = - 90050"
    "shares_held long_env = 1" "map h_action (episode_history long_env) = [1]" by code_simp+
  have n: "(5::int) \<noteq> 1" "(5::int) \<noteq> 2" by simp_all
  from invalid_action_is_hold[OF n v(1)] v(2)
  have r: "snd (step long_env 5) = snd (step long_env 0)"
    "current_step (fst (step long_env 5)) = current_step long_env + 1"
    "balance (fst (step long_env 5)) = balance long_env + mtm long_env"
    "shares_held (fst (step long_env 5)) = shares_held long_env"
    and "\<exists>entry. episode_history (fst (step long_env 0)) = episode_history long_env @ [entry]
           \<and> fst (step long_env 5) =
               (fst (step long_env 0))\<lparr>episode_history :=
                  episode_history long_env @ [entry\<lparr>h_action := 5\<rparr>]\<rparr>"
    by blast+
  then obtain entry where
    e: "episode_history (fst (step long_env 0)) = episode_history long_env @ [entry]"
      "fst (step long_env 5) =
         (fst (step long_env 0))\<lparr>episode_history :=
            episode_history long_env @ [entry\<lparr>h_action := 5\<rparr>]\<rparr>"
    by blast
  have h5: "map h_action (episode_history (fst (step long_env 5))) = [1, 5]"
    unfolding e(2) by (simp add: c)
  have h0: "map h_action (episode_history (fst (step long_env 0))) = [1, 0]" by code_simp
  from v c n r h5 h0 show ?thesis by simp
qed




section \<open>Episodes\<close>

lemma run_balance:
  assumes "valid_env e" and "current_step e + length acts \<le> max_steps e"
  shows "\<exists>en. run e acts = Inr en
           \<and> balance en = balance e + pnl_sum e acts - cost_per_unit e * real (trade_count e acts)"
  using assms
proof (induction acts arbitrary: e)
  case Nil
  then show ?case by simp
next
  case (Cons a as)
  let ?e1 = "fst (step e a)"
  from Cons.prems have run: "current_step e < max_steps e" by simp
  note st = step_running_state[OF Cons.prems(1) run, of a]
  from st(4) obtain e1 r where r: "step e a = (e1, Inr r)" by (cases "step e a") auto
  have "valid_env ?e1" using Cons.prems(1) by (rule step_valid)
  moreover have "current_step ?e1 + length as \<le> max_steps ?e1"
    using Cons.prems(2) st(1) by (simp add: step_frame)
  ultimately obtain en where en: "run ?e1 as = Inr en"
    "balance en = balance ?e1 + pnl_sum ?e1 as - cost_per_unit ?e1 * real (trade_count ?e1 as)"
    using Cons.IH by blast
  have "run e (a # as) = Inr en" using r en(1) by simp
  moreover have "balance en = balance e + pnl_sum e (a # as)
                    - cost_per_unit e * real (trade_count e (a # as))"
    unfolding en(2) step_cost step_balance[OF Cons.prems(1) run, of a]
    by (simp add: algebra_simps)
  ultimately show ?case by blast
qed

text \<open>The step with the identity for the rounding is \<open>step\<close>.\<close>

lemma transact_rounded_exact: "transact_rounded (\<lambda>x. x) e c a = transact e c a"
  by (simp add: transact_rounded_def transact_def)

lemma shaping_rounded_exact: "shaping_rounded (\<lambda>x. x) e p = shaping e p"
  by (simp add: shaping_rounded_def shaping_def)

lemma step_rounded_exact: "step_rounded (\<lambda>x. x) e a = step e a"
  unfolding step_rounded_def step_def transact_rounded_exact shaping_rounded_exact ..

lemma run_rounded_exact: "run_rounded (\<lambda>x. x) e acts = run e acts"
  by (induction acts arbitrary: e) (simp_all add: step_rounded_exact)

text \<open>A purchase on a series of constant price, with any rounding that keeps 0.\<close>

lemma transact_rounded_frame [simp]:
  "df (transact_rounded r e c a) = df e"
  "current_step (transact_rounded r e c a) = current_step e"
  "max_steps (transact_rounded r e c a) = max_steps e"
  "initial_balance (transact_rounded r e c a) = initial_balance e"
  "dv01_per_unit (transact_rounded r e c a) = dv01_per_unit e"
  "transaction_cost_rate (transact_rounded r e c a) = transaction_cost_rate e"
  "episode_history (transact_rounded r e c a) = episode_history e"
  by (simp_all add: transact_rounded_def)

lemma step_rounded_flat_buy:
  assumes "valid_env e" and "current_step e < max_steps e"
    and "\<forall>x\<in>set (df e). price x = p" and "r 0 = 0"
    and c: "c = r (dv01_per_unit e * transaction_cost_rate e)"
  shows "\<exists>res. snd (step_rounded r e 1) = Inr res"
    and "shares_held (fst (step_rounded r e 1)) =
           (if c \<le> r (balance e) then shares_held e + 1 else shares_held e)"
    and "balance (fst (step_rounded r e 1)) =
           (if c \<le> r (balance e) then r (r (balance e) - c) else r (balance e))"
    and "current_step (fst (step_rounded r e 1)) = current_step e + 1"
    and "df (fst (step_rounded r e 1)) = df e"
    and "max_steps (fst (step_rounded r e 1)) = max_steps e"
    and "dv01_per_unit (fst (step_rounded r e 1)) = dv01_per_unit e"
    and "transaction_cost_rate (fst (step_rounded r e 1)) = transaction_cost_rate e"
proof -
  from assms(1,2) have len: "current_step e + 1 < length (df e)" "current_step e < length (df e)"
    by (auto simp: valid_env_def)
  then have "price (df e ! (current_step e + 1)) = p" "price (df e ! current_step e) = p"
    using assms(3) by (auto simp del: One_nat_def)
  then have flat: "price (df e ! Suc (current_step e)) - price (df e ! current_step e) = 0"
    by simp
  have le: "\<not> max_steps e < Suc (current_step e)" using assms(2) by simp
  have st: "step_rounded r e 1 =
     (let e3 = transact_rounded r (e\<lparr>current_step := Suc (current_step e),
                   balance := r (balance e)\<rparr>) c 1;
          e4 = e3\<lparr>episode_history := episode_history e @
                 [\<lparr>h_step = Suc (current_step e), h_price = price (df e ! Suc (current_step e)),
                   h_rsi = rsi (df e ! Suc (current_step e)), h_action = 1,
                   h_balance = balance e3, h_shares_held = shares_held e3,
                   h_reward = snd (shaping_rounded r e3 0)\<rparr>]\<rparr>
      in (e4, Inr \<lparr>observation =
                     \<lparr>obs_spread = price (df e ! Suc (current_step e)),
                      obs_rsi = rsi (df e ! Suc (current_step e)),
                      obs_shares_held = real_of_int (shares_held e3),
                      obs_balance = balance e3,
                      obs_spread_change = spread_change (df e ! Suc (current_step e))\<rparr>,
                   reward = snd (shaping_rounded r e3 0),
                   done_flag = fst (shaping_rounded r e3 0),
                   truncated = False,
                   info = Step_info (balance e3) (shares_held e3)
                            (price (df e ! Suc (current_step e)))\<rparr>))"
    using len le
    by (simp add: step_rounded_def iloc_def get_obs_def Let_def flat assms(4) c
        split: prod.splits)
  show "\<exists>res. snd (step_rounded r e 1) = Inr res" unfolding st by (simp add: Let_def)
  show "shares_held (fst (step_rounded r e 1)) =
           (if c \<le> r (balance e) then shares_held e + 1 else shares_held e)"
    unfolding st by (simp add: Let_def transact_rounded_def)
  show "balance (fst (step_rounded r e 1)) =
           (if c \<le> r (balance e) then r (r (balance e) - c) else r (balance e))"
    unfolding st by (simp add: Let_def transact_rounded_def)
  show "current_step (fst (step_rounded r e 1)) = current_step e + 1"
    unfolding st by (simp add: Let_def)
  show "df (fst (step_rounded r e 1)) = df e" unfolding st by (simp add: Let_def)
  show "max_steps (fst (step_rounded r e 1)) = max_steps e" unfolding st by (simp add: Let_def)
  show "dv01_per_unit (fst (step_rounded r e 1)) = dv01_per_unit e"
    unfolding st by (simp add: Let_def)
  show "transaction_cost_rate (fst (step_rounded r e 1)) = transaction_cost_rate e"
    unfolding st by (simp add: Let_def)
qed

lemma run_rounded_flat_buys:
  assumes "valid_env e" and "\<forall>x\<in>set (df e). price x = p" and "r 0 = 0"
    and "current_step e + k \<le> max_steps e"
  shows "final_position_balance (run_rounded r e (replicate k 1)) =
           Inr (flat_buys r (r (dv01_per_unit e * transaction_cost_rate e)) k
                  (shares_held e, balance e))"
  using assms(1,2,4)
proof (induction k arbitrary: e)
  case 0
  then show ?case by (simp add: final_position_balance_def)
next
  case (Suc k)
  from Suc.prems have run: "current_step e < max_steps e" by simp
  note st = step_rounded_flat_buy[where r = r and e = e and p = p,
      OF Suc.prems(1) run Suc.prems(2) assms(3) refl]
  from st(1) obtain e1 res where r: "step_rounded r e 1 = (e1, Inr res)"
    by (cases "step_rounded r e 1") auto
  then have e1: "fst (step_rounded r e 1) = e1" by simp
  note st1 = st(2-)[unfolded e1]
  have "valid_env e1" using Suc.prems(1) by (simp add: valid_env_def st1)
  moreover have "\<forall>x\<in>set (df e1). price x = p" using Suc.prems(2) by (simp add: st1)
  moreover have "current_step e1 + k \<le> max_steps e1" using Suc.prems(3) by (simp add: st1)
  ultimately have "final_position_balance (run_rounded r e1 (replicate k 1)) =
           Inr (flat_buys r (r (dv01_per_unit e1 * transaction_cost_rate e1)) k
                  (shares_held e1, balance e1))"
    by (rule Suc.IH)
  then show ?case using r by (simp add: st1)
qed

lemma flat_buys_unfold:
  "0 < k \<Longrightarrow> flat_buys r c k sb =
     flat_buys r c (k - 1)
       (if c \<le> r (snd sb) then (fst sb + 1, r (r (snd sb) - c)) else (fst sb, r (snd sb)))"
  by (cases k) simp_all

lemma ten_dimes:
  "flat_buys round_double (3602879701896397 / 36028797018963968) 10 (0, 1) =
     (10, 5 / 36028797018963968)"
  by (simp add: flat_buys_unfold round_double_def rounding_eval)

text \<open>
  Claim C1 says that the balance after \<open>n\<close> steps is exactly \<open>initial_balance\<close> plus the
  mark-to-market results minus the cost of a unit times the number of trades. The
  balance of the source is a double, and each \<open>+=\<close> and \<open>-=\<close> of \<open>step\<close> rounds. With
  \<open>initial_balance=1.0\<close>, \<open>transaction_cost_rate=0.1\<close> and \<open>fixed_cs01_per_unit=1\<close> on a
  series of constant price, ten purchases after \<open>reset()\<close> all go through and leave the
  balance at \<open>5 / 2 ^ 55\<close>, about \<open>1.39e-16\<close>; the mark-to-market results are 0, and the
  formula of the claim gives \<open>1 - 10 * cost\<close>, which is \<open>- 1 / 2 ^ 54\<close> as a real number
  and \<open>0.0\<close> in doubles. (With exact arithmetic the tenth purchase is refused: the
  balance after nine is below the cost.)
\<close>

theorem balance_rounding_counterexample:
  "final_position_balance (run_rounded round_double dime_env (replicate 10 1))
     = Inr (10, 5 / 36028797018963968)
   \<and> final_position_balance (run dime_env (replicate 10 1))
     = Inr (9, 3602879701896395 / 36028797018963968)
   \<and> initial_balance dime_env = 1
   \<and> cost_per_unit dime_env = 3602879701896397 / 36028797018963968
   \<and> map price (df dime_env) = replicate 14 100
   \<and> (1 :: real) + 0 - 3602879701896397 / 36028797018963968 * 10 = - (1 / 18014398509481984)
   \<and> round_double (1 + 0 - round_double (3602879701896397 / 36028797018963968 * 10)) = 0"
proof -
  have v: "valid_env dime_env" by code_simp
  have f: "\<forall>x\<in>set (df dime_env). price x = 100" by code_simp
  have z: "round_double 0 = 0" by (simp add: round_double_def round_to_def)
  have l: "current_step dime_env + 10 \<le> max_steps dime_env" by code_simp
  have c: "round_double (dv01_per_unit dime_env * transaction_cost_rate dime_env)
             = 3602879701896397 / 36028797018963968"
  proof -
    have a: "dv01_per_unit dime_env * transaction_cost_rate dime_env
            = 3602879701896397 / 36028797018963968" by code_simp
    have "round_double (3602879701896397 / 36028797018963968)
            = 3602879701896397 / 36028797018963968"
      by (simp add: round_double_def rounding_eval)
    then show ?thesis by (simp only: a)
  qed
  have s: "(shares_held dime_env, balance dime_env) = (0, 1)" by code_simp
  have 1: "final_position_balance (run_rounded round_double dime_env (replicate 10 1))
     = Inr (10, 5 / 36028797018963968)"
    unfolding run_rounded_flat_buys[where r = round_double and e = dime_env and p = 100 and k = 10,
        OF v f z l] c s ten_dimes ..
  have 2: "final_position_balance (run dime_env (replicate 10 1))
     = Inr (9, 3602879701896395 / 36028797018963968)" by code_simp
  have 3: "initial_balance dime_env = 1"
    "cost_per_unit dime_env = 3602879701896397 / 36028797018963968"
    "map price (df dime_env) = replicate 14 100" by code_simp+
  have 4: "(1 :: real) + 0 - 3602879701896397 / 36028797018963968 * 10
             = - (1 / 18014398509481984)" by simp
  have 5: "round_double (1 + 0 - round_double (3602879701896397 / 36028797018963968 * 10)) = 0"
    by (simp add: round_double_def rounding_eval)
  from 1 2 3 4 5 show ?thesis by blast
qed

text \<open>
  Claim C1 as amended. With exact arithmetic, that is, with the rounding of the
  floating-point operations left aside, after \<open>reset\<close>, for every series and every
  sequence of \<open>n\<close> actions that leaves a row for each step (no step reaches the
  end-of-data branch), every step returns and the balance after the \<open>n\<close> steps is
  exactly \<open>initial_balance\<close> plus the sum of the steps' mark-to-market results
  \<open>shares_held * price change * dv01_per_unit\<close> minus the cost of one unit,
  \<open>dv01_per_unit * transaction_cost_rate\<close>, times the number of steps that traded a unit.
\<close>

theorem balance_accounting:
  assumes "valid_env e" and "e0 = fst (fst (reset randint e g seed))"
    and "current_step e0 + length acts \<le> max_steps e0"
  shows "\<exists>en. run e0 acts = Inr en
           \<and> balance en = initial_balance e + pnl_sum e0 acts
                            - dv01_per_unit e * transaction_cost_rate e * real (trade_count e0 acts)"
proof -
  have v: "valid_env e0" using assms(1,2) by (simp add: valid_env_def reset_state)
  have c: "cost_per_unit e0 = dv01_per_unit e * transaction_cost_rate e"
    by (simp add: cost_per_unit_def assms(2) reset_state)
  have b: "balance e0 = initial_balance e" by (simp add: assms(2) reset_state)
  from run_balance[OF v assms(3)] show ?thesis unfolding c b .
qed

theorem balance_accounting_witness:
  "valid_env demo_base
   \<and> current_step demo_env + length [1, 0, 2 :: int] \<le> max_steps demo_env
   \<and> pnl_sum demo_env [1, 0, 2] = - 200000
   \<and> trade_count demo_env [1, 0, 2] = 2
   \<and> map_sum id balance (run demo_env [1, 0, 2]) = Inr (10000 - 200000 - 100000 * 0.0005 * 2)"
proof -
  have v: "valid_env demo_base" by code_simp
  have l: "current_step demo_env + length [1, 0, 2 :: int] \<le> max_steps demo_env" by code_simp
  have p: "pnl_sum demo_env [1, 0, 2] = - 200000" "trade_count demo_env [1, 0, 2] = 2"
    by code_simp+
  have c: "initial_balance demo_base = 10000" "dv01_per_unit demo_base = 100000"
    "transaction_cost_rate demo_base = 0.0005" by code_simp+
  from balance_accounting[OF v demo_env_def l]
  obtain en where "run demo_env [1, 0, 2] = Inr en"
    "balance en = initial_balance demo_base + pnl_sum demo_env [1, 0, 2]
       - dv01_per_unit demo_base * transaction_cost_rate demo_base
         * real (trade_count demo_env [1, 0, 2])"
    by blast
  then have "map_sum id balance (run demo_env [1, 0, 2]) = Inr (10000 - 200000 - 100000 * 0.0005 * 2)"
    unfolding p c by simp
  with v l p show ?thesis by blast
qed

text \<open>
  Claim C2 says that the position stays within \<open>-max_shares .. max_shares\<close>, which
  \<open>__init__\<close> sets to 10 for the bounds of the observation space. \<open>step\<close> has no check
  against that bound: on a flat series eleven purchases in a row, each of which returns,
  leave the position at 11, and eleven sales at -11.
\<close>

theorem position_exceeds_max_shares:
  "final_shares (run flat_env (replicate 11 1)) = Inr 11
   \<and> final_shares (run flat_env (replicate 11 2)) = Inr (- 11)
   \<and> max_shares = 10"
  by code_simp

section \<open>\<open>reset\<close>\<close>

text \<open>The start index that \<open>reset\<close> chooses does not depend on the seed it is given.\<close>

lemma reset_start_ignores_seed:
  "current_step (fst (fst (reset randint e g seed1))) =
   current_step (fst (fst (reset randint e g seed2)))"
  by (simp add: reset_def super_reset_def Let_def split: prod.splits sum.splits option.splits)

text \<open>With a range to draw from, the start index is the draw of the global generator,
  whose state advances; without one it is \<open>window + 1\<close>.\<close>

lemma reset_start_random:
  assumes "int (window e) + 1 \<le> int (max_steps e) - 100"
  shows "current_step (fst (fst (reset randint e g seed))) =
           nat (fst (randint g (int (window e) + 1) (int (max_steps e) - 100)))"
    and "snd (fst (reset randint e g seed)) =
           snd (randint g (int (window e) + 1) (int (max_steps e) - 100))"
  using assms
  by (simp_all add: reset_def super_reset_def Let_def split: prod.splits sum.splits option.splits)

lemma reset_start_short:
  assumes "int (max_steps e) - 100 < int (window e) + 1"
  shows "current_step (fst (fst (reset randint e g seed))) = window e + 1"
  using assms
  by (simp add: reset_def super_reset_def Let_def nat_add_distrib split: prod.splits sum.splits option.splits)

lemma reset_valid: "valid_env e \<Longrightarrow> valid_env (fst (fst (reset randint e g seed)))"
  by (simp add: valid_env_def reset_state)

text \<open>
  Claim C6 says that two calls \<open>reset(seed=S)\<close> give the same start index and first
  observation. The seed goes to the environment's own generator, which \<open>reset\<close> never
  draws from; the start index comes from the global generator, whose state each draw
  advances. With a generator whose consecutive draws differ, two resets with the seed 42
  start at different indices.
\<close>

theorem reset_same_seed_differs:
  "(let ((e1, g1), r1) = reset counter_randint long_series_env 0 (Some 42);
        ((e2, g2), r2) = reset counter_randint e1 g1 (Some 42)
    in (current_step e1, np_random_seed e1, current_step e2, np_random_seed e2))
   = (2, Some 42, 3, Some 42)"
  by code_simp

section \<open>\<open>__init__\<close> and \<open>calculate_rsi\<close>\<close>

lemma length_diff_from [simp]: "length (diff_from p xs) = length xs"
  by (induction xs arbitrary: p) simp_all

lemma length_diff [simp]: "length (diff xs) = length xs"
  by (cases xs) simp_all

lemma length_ewm_loop [simp]: "length (ewm_loop f minp weighted old_wt nobs xs) = length xs"
  by (induction xs arbitrary: weighted old_wt nobs) (simp_all add: Let_def split: option.splits)

lemma ewm_mean_cases:
  "ewm_mean com mp s = (if com < 0 then Inl ValueError
     else Inr (ewm_loop (1 - 1 / (1 + real_of_int com)) (max mp 1) None 1 0 s))"
  by (simp add: ewm_mean_def Let_def)

text \<open>A window of 0 makes \<open>com = -1\<close>, which pandas refuses; every other window gives an
  indicator for each row.\<close>

lemma calculate_rsi_window_0: "calculate_rsi prices 0 = Inl ValueError"
  by (simp add: calculate_rsi_def ewm_mean_cases Let_def)

lemma calculate_rsi_ok:
  assumes "1 \<le> w"
  shows "\<exists>rsis. calculate_rsi prices w = Inr rsis \<and> length rsis = length prices"
  using assms by (simp add: calculate_rsi_def ewm_mean_cases Let_def mask_def neg_series_def)

lemma calculate_rsi_length:
  assumes "calculate_rsi prices w = Inr rsis"
  shows "length rsis = length prices \<and> 1 \<le> w"
proof (cases "w = 0")
  case True
  with assms show ?thesis by (simp add: calculate_rsi_window_0)
next
  case False
  then have "1 \<le> w" by simp
  with calculate_rsi_ok[OF this, of prices] assms show ?thesis by auto
qed

lemma preprocess_length:
  assumes "preprocess prices w = Inr rows"
  shows "length rows = length prices \<and> 1 \<le> w"
proof -
  from assms obtain rsis where r: "calculate_rsi prices w = Inr rsis"
    by (auto simp: preprocess_def split: sum.splits)
  from calculate_rsi_length[OF r] assms r show ?thesis
    by (auto simp: preprocess_def Let_def)
qed







subsection \<open>The range of the indicator\<close>















end
